theory Spec2Isabelle
  imports Main
begin

section \<open>The route handlers of webtool.py\<close>

text \<open>
  The module \<^verbatim>\<open>webtool/webtool.py\<close> is a Flask application: a landing page, a
  single-document view and five search views. Every view reads query-string
  parameters with \<^verbatim>\<open>request.args.get\<close>, may call one method of a freshly built
  \<^verbatim>\<open>SearchClient\<close>, and renders a template. The embedding below keeps that
  shape: a view takes the collaborators it uses as parameters and returns the list of
  calls it made to them together with either the exception that left the view or the
  rendered page.
\<close>

subsection \<open>Python values\<close>

text \<open>
  The values the views build themselves and hand to the client: \<^verbatim>\<open>None\<close>, a
  string read from the request, or an integer literal.
\<close>

datatype pyarg = PyNone | PyStr string | PyInt int

text \<open>Python's truth test, as used by \<^verbatim>\<open>if q:\<close> and \<^verbatim>\<open>page if page else 1\<close>.\<close>

fun truthy :: "pyarg \<Rightarrow> bool" where
  "truthy PyNone = False"
| "truthy (PyStr s) = (s \<noteq> [])"
| "truthy (PyInt n) = (n \<noteq> 0)"

subsection \<open>The request and the configuration\<close>

text \<open>The two verbs the \<^verbatim>\<open>methods=[...]\<close> lists of the routes name.\<close>

datatype http_method = GET | POST

text \<open>
  \<open>args\<close> is the parsed query string (\<^verbatim>\<open>request.args\<close>), \<open>form\<close> the parsed body of
  a form submission (\<^verbatim>\<open>request.form\<close>), which no view reads.
\<close>

record request =
  method_of :: http_method
  path :: string
  args :: "string \<rightharpoonup> string"
  form :: "string \<rightharpoonup> string"

text \<open>\<^verbatim>\<open>request.args.get(k)\<close>: the value of the parameter, or \<^verbatim>\<open>None\<close> when it is absent.\<close>

definition args_get :: "request \<Rightarrow> string \<Rightarrow> pyarg" where
  "args_get req k = (case args req k of None \<Rightarrow> PyNone | Some s \<Rightarrow> PyStr s)"

text \<open>
  The three keys of \<^verbatim>\<open>app.config\<close> the views read. The file \<^verbatim>\<open>app.cfg\<close> that sets
  them is not part of the sources, so the configuration is a parameter of every view.
\<close>

record config =
  SOLR_INDEX_0 :: string
  SOLR_INDEX_1 :: string
  NUM_RECS_PER_PAGE :: int

subsection \<open>The collaborators: SearchClient, SearchForm, render_template\<close>

text \<open>
  \<^verbatim>\<open>SearchClient(index, num_recs)\<close> builds a client object; building it is modelled as
  building a value.
\<close>

datatype client = SearchClient (index: string) (num_recs: int)

text \<open>
  The methods of \<^verbatim>\<open>SearchClient\<close> live in \<^verbatim>\<open>services.py\<close>, outside the sources; the
  views are therefore parameterised by their behaviour. A method either raises (\<open>Inl\<close>)
  or returns (\<open>Inr\<close>); the objects it returns are opaque values of type \<open>'v\<close>.
  \<^verbatim>\<open>search_index0\<close> returns a pair and \<^verbatim>\<open>search_index1\<close> a triple, as the tuple
  assignments of the views require.
\<close>

record ('e, 'v) services =
  get :: "client \<Rightarrow> pyarg \<Rightarrow> 'e + 'v"
  search_index0 :: "client \<Rightarrow> pyarg \<Rightarrow> pyarg \<Rightarrow> string \<Rightarrow> int \<Rightarrow> 'e + 'v \<times> 'v"
  search_index1 ::
    "client \<Rightarrow> pyarg \<Rightarrow> pyarg \<Rightarrow> pyarg \<Rightarrow> pyarg \<Rightarrow> string \<Rightarrow> int \<Rightarrow> 'e + 'v \<times> 'v \<times> 'v"

text \<open>
  The calls a view can make to the two imported collaborators, in the order made.
  \<open>Call_SearchForm\<close> stands for any use of the imported \<^verbatim>\<open>SearchForm\<close>.
\<close>

datatype call =
    Call_SearchForm
  | Call_get client pyarg
  | Call_search_index0 client pyarg pyarg string int
  | Call_search_index1 client pyarg pyarg pyarg pyarg string int

text \<open>
  \<^verbatim>\<open>render_template(name, **context)\<close>: the page is determined by the template name
  and the keyword arguments. A context value is \<open>None\<close> for Python's \<^verbatim>\<open>None\<close> and
  \<open>Some v\<close> for an object the client returned.
\<close>

datatype 'v response = render_template string "(string \<times> 'v option) list"

type_synonym ('e, 'v) outcome = "call list \<times> ('e + 'v response)"

subsection \<open>The views\<close>

definition index_view :: "('e, 'v) outcome" where
  "index_view = ([], Inr (render_template ''index.html'' []))"

definition content :: "('e, 'v) services \<Rightarrow> config \<Rightarrow> request \<Rightarrow> ('e, 'v) outcome" where
  "content svc cfg req =
    (let id = args_get req ''id'';
         client = SearchClient (SOLR_INDEX_0 cfg) (NUM_RECS_PER_PAGE cfg)
     in ([Call_get client id],
         case get svc client id of
           Inl e \<Rightarrow> Inl e
         | Inr doc \<Rightarrow> Inr (render_template ''content.html'' [(''doc'', Some doc)])))"

definition search0 :: "('e, 'v) services \<Rightarrow> config \<Rightarrow> request \<Rightarrow> ('e, 'v) outcome" where
  "search0 svc cfg req =
    (let q = args_get req ''q'';
         page = args_get req ''page'';
         page = (if truthy page then page else PyInt 1)
     in if truthy q then
          (let client = SearchClient (SOLR_INDEX_0 cfg) (NUM_RECS_PER_PAGE cfg)
           in ([Call_search_index0 client q page ''search0'' 0],
               case search_index0 svc client q page ''search0'' 0 of
                 Inl e \<Rightarrow> Inl e
               | Inr (meta, docs) \<Rightarrow>
                   Inr (render_template ''search0.html''
                          [(''meta'', Some meta), (''docs'', Some docs)])))
        else ([], Inr (render_template ''search0.html'' [(''meta'', None), (''docs'', None)])))"

definition search1 :: "('e, 'v) services \<Rightarrow> config \<Rightarrow> request \<Rightarrow> ('e, 'v) outcome" where
  "search1 svc cfg req =
    (let q = args_get req ''q'';
         page = args_get req ''page'';
         page = (if truthy page then page else PyInt 1)
     in if truthy q then
          (let client = SearchClient (SOLR_INDEX_0 cfg) (NUM_RECS_PER_PAGE cfg)
           in ([Call_search_index0 client q page ''search1'' 1],
               case search_index0 svc client q page ''search1'' 1 of
                 Inl e \<Rightarrow> Inl e
               | Inr (meta, docs) \<Rightarrow>
                   Inr (render_template ''search0.html''
                          [(''meta'', Some meta), (''docs'', Some docs)])))
        else ([], Inr (render_template ''search0.html'' [(''meta'', None), (''docs'', None)])))"

definition search2 :: "('e, 'v) services \<Rightarrow> config \<Rightarrow> request \<Rightarrow> ('e, 'v) outcome" where
  "search2 svc cfg req =
    (let q = args_get req ''q'';
         page = args_get req ''page'';
         page = (if truthy page then page else PyInt 1)
     in if truthy q then
          (let client = SearchClient (SOLR_INDEX_0 cfg) (NUM_RECS_PER_PAGE cfg)
           in ([Call_search_index0 client q page ''search2'' 2],
               case search_index0 svc client q page ''search2'' 2 of
                 Inl e \<Rightarrow> Inl e
               | Inr (meta, docs) \<Rightarrow>
                   Inr (render_template ''search0.html''
                          [(''meta'', Some meta), (''docs'', Some docs)])))
        else ([], Inr (render_template ''search0.html'' [(''meta'', None), (''docs'', None)])))"

definition search3 :: "('e, 'v) services \<Rightarrow> config \<Rightarrow> request \<Rightarrow> ('e, 'v) outcome" where
  "search3 svc cfg req =
    (let q = args_get req ''q'';
         fk = args_get req ''fk'';
         fa = args_get req ''fa'';
         page = args_get req ''page'';
         page = (if truthy page then page else PyInt 1)
     in if truthy q then
          (let client = SearchClient (SOLR_INDEX_1 cfg) (NUM_RECS_PER_PAGE cfg)
           in ([Call_search_index1 client q fk fa page ''search3'' 1],
               case search_index1 svc client q fk fa page ''search3'' 1 of
                 Inl e \<Rightarrow> Inl e
               | Inr (meta, facets, docs) \<Rightarrow>
                   Inr (render_template ''search1.html''
                          [(''meta'', Some meta), (''facets'', Some facets), (''docs'', Some docs)])))
        else ([], Inr (render_template ''search1.html''
                         [(''meta'', None), (''facets'', None), (''docs'', None)])))"

definition search4 :: "('e, 'v) services \<Rightarrow> config \<Rightarrow> request \<Rightarrow> ('e, 'v) outcome" where
  "search4 svc cfg req =
    (let q = args_get req ''q'';
         fk = args_get req ''fk'';
         fa = args_get req ''fa'';
         page = args_get req ''page'';
         page = (if truthy page then page else PyInt 1)
     in if truthy q then
          (let client = SearchClient (SOLR_INDEX_1 cfg) (NUM_RECS_PER_PAGE cfg)
           in ([Call_search_index1 client q fk fa page ''search4'' 3],
               case search_index1 svc client q fk fa page ''search4'' 3 of
                 Inl e \<Rightarrow> Inl e
               | Inr (meta, facets, docs) \<Rightarrow>
                   Inr (render_template ''search1.html''
                          [(''meta'', Some meta), (''facets'', Some facets), (''docs'', Some docs)])))
        else ([], Inr (render_template ''search1.html''
                         [(''meta'', None), (''facets'', None), (''docs'', None)])))"

subsection \<open>The URL map\<close>

text \<open>
  The \<^verbatim>\<open>@app.route\<close> decorators: the rule, the methods it lists (\<^verbatim>\<open>GET\<close> alone when
  none are listed) and the view bound to it.
\<close>

definition url_map ::
  "(string \<times> http_method list \<times> (('e, 'v) services \<Rightarrow> config \<Rightarrow> request \<Rightarrow> ('e, 'v) outcome)) list"
where
  "url_map =
    [(''/'', [GET], \<lambda>svc cfg req. index_view),
     (''/index'', [GET], \<lambda>svc cfg req. index_view),
     (''/content'', [GET], content),
     (''/search0'', [GET, POST], search0),
     (''/search1'', [GET, POST], search1),
     (''/search2'', [GET, POST], search2),
     (''/search3'', [GET, POST], search3),
     (''/search4'', [GET, POST], search4)]"

text \<open>
  Dispatching a request: the rule that equals the path is looked up; a request whose
  verb the rule does not list is refused before any view runs.
\<close>

datatype 'a routed = No_rule | Method_not_allowed | View 'a

definition dispatch ::
  "('e, 'v) services \<Rightarrow> config \<Rightarrow> request \<Rightarrow> ('e, 'v) outcome routed" where
  "dispatch svc cfg req =
    (case map_of url_map (path req) of
       None \<Rightarrow> No_rule
     | Some (methods, view) \<Rightarrow>
         if List.member methods (method_of req) then View (view svc cfg req)
         else Method_not_allowed)"

text \<open>The calls made while a request was served, when a view served it.\<close>

fun routed_calls :: "('e, 'v) outcome routed \<Rightarrow> call list option" where
  "routed_calls (View (calls, result)) = Some calls"
| "routed_calls No_rule = None"
| "routed_calls Method_not_allowed = None"

fun routed_result :: "('e, 'v) outcome routed \<Rightarrow> ('e + 'v response) option" where
  "routed_result (View (calls, result)) = Some result"
| "routed_result No_rule = None"
| "routed_result Method_not_allowed = None"

subsection \<open>Reading a list of calls\<close>

text \<open>
  The page argument, the view label, and the method name with the index of the client
  it was invoked on, of a single call.
\<close>

fun call_page :: "call \<Rightarrow> pyarg option" where
  "call_page (Call_search_index0 c q page label n) = Some page"
| "call_page (Call_search_index1 c q fk fa page label n) = Some page"
| "call_page (Call_get c i) = None"
| "call_page Call_SearchForm = None"

fun call_label :: "call \<Rightarrow> string option" where
  "call_label (Call_search_index0 c q page label n) = Some label"
| "call_label (Call_search_index1 c q fk fa page label n) = Some label"
| "call_label (Call_get c i) = None"
| "call_label Call_SearchForm = None"

fun call_binding :: "call \<Rightarrow> string \<times> string option" where
  "call_binding (Call_search_index0 c q page label n) = (''search_index0'', Some (index c))"
| "call_binding (Call_search_index1 c q fk fa page label n) = (''search_index1'', Some (index c))"
| "call_binding (Call_get c i) = (''get'', Some (index c))"
| "call_binding Call_SearchForm = (''SearchForm'', None)"

text \<open>The calls that reach the search client.\<close>

fun is_client_call :: "call \<Rightarrow> bool" where
  "is_client_call Call_SearchForm = False"
| "is_client_call (Call_get c i) = True"
| "is_client_call (Call_search_index0 c q page label n) = True"
| "is_client_call (Call_search_index1 c q fk fa page label n) = True"

text \<open>
  \<open>validated_first False calls\<close>: every call to the search client in \<open>calls\<close> comes
  after a call to the input form.
\<close>

fun validated_first :: "bool \<Rightarrow> call list \<Rightarrow> bool" where
  "validated_first seen [] = True"
| "validated_first seen (Call_SearchForm # cs) = validated_first True cs"
| "validated_first seen (c # cs) = (seen \<and> validated_first seen cs)"

subsection \<open>Notions of the specification\<close>

text \<open>
  A blank parameter, in the usual sense of the word: a string made of white space only
  (the empty string included).
\<close>

definition whitespace :: "char list" where
  "whitespace = [CHR '' '', CHR 0x09, CHR 0x0A, CHR 0x0D]"

fun blank :: "pyarg \<Rightarrow> bool" where
  "blank (PyStr s) = list_all (List.member whitespace) s"
| "blank PyNone = False"
| "blank (PyInt n) = False"

text \<open>
  Modelled from the spec: the request that \<^verbatim>\<open>SearchClient.search_index0\<close> and
  \<^verbatim>\<open>SearchClient.search_index1\<close> (in \<^verbatim>\<open>services.py\<close>, which is not among the sources)
  send to the index. The specification's \<open>searchPlain\<close> requests \<open>pageSize\<close> results
  starting at offset \<open>(page - 1) * pageSize\<close>; \<open>searchFaceted\<close> does the same, filters
  on \<open>facetKey = facetValue\<close> when both are present and asks for facet counts on
  \<open>facetKey\<close>. The page size is the one the client was built with.
\<close>

record solr_request =
  text_of :: pyarg
  start :: int
  rows :: int
  filter_on :: "(string \<times> string) option"
  facet_field :: "string option"

text \<open>Modelled from the spec: \<open>searchPlain\<close>, as described above.\<close>

definition searchPlain :: "client \<Rightarrow> pyarg \<Rightarrow> int \<Rightarrow> solr_request" where
  "searchPlain c q page =
    \<lparr>text_of = q, start = (page - 1) * num_recs c, rows = num_recs c,
     filter_on = None, facet_field = None\<rparr>"

text \<open>Modelled from the spec: \<open>searchFaceted\<close>, as described above.\<close>

definition searchFaceted ::
  "client \<Rightarrow> pyarg \<Rightarrow> string option \<Rightarrow> string option \<Rightarrow> int \<Rightarrow> solr_request" where
  "searchFaceted c q fk fa page =
    \<lparr>text_of = q, start = (page - 1) * num_recs c, rows = num_recs c,
     filter_on = (case (fk, fa) of (Some k, Some a) \<Rightarrow> Some (k, a) | _ \<Rightarrow> None),
     facet_field = fk\<rparr>"

text \<open>
  The single parameterised view the specification describes the search views as
  instances of: the label and the numeric last argument are parameters, everything else
  is fixed. \<open>plain_search_view\<close> stands for the three views on the plain index,
  \<open>faceted_search_view\<close> for the two on the faceted index.
\<close>

definition plain_search_view ::
  "string \<Rightarrow> int \<Rightarrow> ('e, 'v) services \<Rightarrow> config \<Rightarrow> request \<Rightarrow> ('e, 'v) outcome" where
  "plain_search_view label n svc cfg req =
    (let q = args_get req ''q'';
         page = (if truthy (args_get req ''page'') then args_get req ''page'' else PyInt 1);
         client = SearchClient (SOLR_INDEX_0 cfg) (NUM_RECS_PER_PAGE cfg)
     in if truthy q then
          ([Call_search_index0 client q page label n],
           case search_index0 svc client q page label n of
             Inl e \<Rightarrow> Inl e
           | Inr (meta, docs) \<Rightarrow>
               Inr (render_template ''search0.html''
                      [(''meta'', Some meta), (''docs'', Some docs)]))
        else ([], Inr (render_template ''search0.html'' [(''meta'', None), (''docs'', None)])))"

definition faceted_search_view ::
  "string \<Rightarrow> int \<Rightarrow> ('e, 'v) services \<Rightarrow> config \<Rightarrow> request \<Rightarrow> ('e, 'v) outcome" where
  "faceted_search_view label n svc cfg req =
    (let q = args_get req ''q'';
         page = (if truthy (args_get req ''page'') then args_get req ''page'' else PyInt 1);
         client = SearchClient (SOLR_INDEX_1 cfg) (NUM_RECS_PER_PAGE cfg)
     in if truthy q then
          ([Call_search_index1 client q (args_get req ''fk'') (args_get req ''fa'') page label n],
           case search_index1 svc client q (args_get req ''fk'') (args_get req ''fa'') page label n of
             Inl e \<Rightarrow> Inl e
           | Inr (meta, facets, docs) \<Rightarrow>
               Inr (render_template ''search1.html''
                      [(''meta'', Some meta), (''facets'', Some facets), (''docs'', Some docs)]))
        else ([], Inr (render_template ''search1.html''
                         [(''meta'', None), (''facets'', None), (''docs'', None)])))"

subsection \<open>A concrete configuration, client and request\<close>

text \<open>
  Used to evaluate the views: ten records per page, a client whose \<^verbatim>\<open>get\<close> knows the
  single identifier \<^verbatim>\<open>42\<close> and raises otherwise, and whose searches return fixed
  objects.
\<close>

definition demo_config :: config where
  "demo_config = \<lparr>SOLR_INDEX_0 = ''index0'', SOLR_INDEX_1 = ''index1'', NUM_RECS_PER_PAGE = 10\<rparr>"

definition demo_services :: "(string, nat) services" where
  "demo_services =
    \<lparr>get = (\<lambda>c i. if i = PyStr ''42'' then Inr 7 else Inl ''NotFound''),
     search_index0 = (\<lambda>c q page label n. Inr (1, 2)),
     search_index1 = (\<lambda>c q fk fa page label n. Inr (1, 3, 2))\<rparr>"

definition demo_request :: "http_method \<Rightarrow> string \<Rightarrow> (string \<times> string) list \<Rightarrow> request" where
  "demo_request m p kvs = \<lparr>method_of = m, path = p, args = map_of kvs, form = Map.empty\<rparr>"

section \<open>Properties of the views\<close>

subsection \<open>What each view calls and how requests reach it\<close>

lemmas demo_defs = demo_config_def demo_services_def demo_request_def args_get_def

lemma args_get_path [simp]: "args_get (req\<lparr>path := p\<rparr>) k = args_get req k"
  by (simp add: args_get_def)

lemma args_get_method [simp]: "args_get (req\<lparr>method_of := m\<rparr>) k = args_get req k"
  by (simp add: args_get_def)

lemma truthy_args_get: "truthy (args_get req k) = (\<exists>c cs. args req k = Some (c # cs))"
  by (cases "args req k") (auto simp: args_get_def neq_Nil_conv)

lemma eff_page:
  "(if truthy (args_get req ''page'') then args_get req ''page'' else PyInt 1) =
   (case args req ''page'' of None \<Rightarrow> PyInt 1 | Some s \<Rightarrow> if s = [] then PyInt 1 else PyStr s)"
  by (simp add: args_get_def split: option.splits)

lemma search0_calls:
  "fst (search0 svc cfg req) =
    (if truthy (args_get req ''q'')
     then [Call_search_index0 (SearchClient (SOLR_INDEX_0 cfg) (NUM_RECS_PER_PAGE cfg))
             (args_get req ''q'')
             (if truthy (args_get req ''page'') then args_get req ''page'' else PyInt 1)
             ''search0'' 0]
     else [])"
  by (simp add: search0_def Let_def)

lemma search1_calls:
  "fst (search1 svc cfg req) =
    (if truthy (args_get req ''q'')
     then [Call_search_index0 (SearchClient (SOLR_INDEX_0 cfg) (NUM_RECS_PER_PAGE cfg))
             (args_get req ''q'')
             (if truthy (args_get req ''page'') then args_get req ''page'' else PyInt 1)
             ''search1'' 1]
     else [])"
  by (simp add: search1_def Let_def)

lemma search2_calls:
  "fst (search2 svc cfg req) =
    (if truthy (args_get req ''q'')
     then [Call_search_index0 (SearchClient (SOLR_INDEX_0 cfg) (NUM_RECS_PER_PAGE cfg))
             (args_get req ''q'')
             (if truthy (args_get req ''page'') then args_get req ''page'' else PyInt 1)
             ''search2'' 2]
     else [])"
  by (simp add: search2_def Let_def)

lemma search3_calls:
  "fst (search3 svc cfg req) =
    (if truthy (args_get req ''q'')
     then [Call_search_index1 (SearchClient (SOLR_INDEX_1 cfg) (NUM_RECS_PER_PAGE cfg))
             (args_get req ''q'') (args_get req ''fk'') (args_get req ''fa'')
             (if truthy (args_get req ''page'') then args_get req ''page'' else PyInt 1)
             ''search3'' 1]
     else [])"
  by (simp add: search3_def Let_def)

lemma search4_calls:
  "fst (search4 svc cfg req) =
    (if truthy (args_get req ''q'')
     then [Call_search_index1 (SearchClient (SOLR_INDEX_1 cfg) (NUM_RECS_PER_PAGE cfg))
             (args_get req ''q'') (args_get req ''fk'') (args_get req ''fa'')
             (if truthy (args_get req ''page'') then args_get req ''page'' else PyInt 1)
             ''search4'' 3]
     else [])"
  by (simp add: search4_def Let_def)

lemmas search_calls = search0_calls search1_calls search2_calls search3_calls search4_calls

lemma content_calls:
  "fst (content svc cfg req) =
    [Call_get (SearchClient (SOLR_INDEX_0 cfg) (NUM_RECS_PER_PAGE cfg)) (args_get req ''id'')]"
  by (simp add: content_def Let_def)

lemma content_result:
  "snd (content svc cfg req) =
    (case get svc (SearchClient (SOLR_INDEX_0 cfg) (NUM_RECS_PER_PAGE cfg)) (args_get req ''id'') of
       Inl e \<Rightarrow> Inl e
     | Inr doc \<Rightarrow> Inr (render_template ''content.html'' [(''doc'', Some doc)]))"
  by (simp add: content_def Let_def)

lemma search0_path [simp]: "search0 svc cfg (req\<lparr>path := p\<rparr>) = search0 svc cfg req"
  by (simp add: search0_def)
lemma search1_path [simp]: "search1 svc cfg (req\<lparr>path := p\<rparr>) = search1 svc cfg req"
  by (simp add: search1_def)
lemma search2_path [simp]: "search2 svc cfg (req\<lparr>path := p\<rparr>) = search2 svc cfg req"
  by (simp add: search2_def)
lemma search3_path [simp]: "search3 svc cfg (req\<lparr>path := p\<rparr>) = search3 svc cfg req"
  by (simp add: search3_def)
lemma search4_path [simp]: "search4 svc cfg (req\<lparr>path := p\<rparr>) = search4 svc cfg req"
  by (simp add: search4_def)
lemma content_path_method [simp]:
  "content svc cfg (req\<lparr>method_of := m, path := p\<rparr>) = content svc cfg req"
  by (simp add: content_def)

lemma dispatch_search0:
  "dispatch svc cfg (req\<lparr>path := ''/search0''\<rparr>) = View (search0 svc cfg req)"
  by (cases "method_of req") (simp_all add: dispatch_def url_map_def)

lemma dispatch_search1:
  "dispatch svc cfg (req\<lparr>path := ''/search1''\<rparr>) = View (search1 svc cfg req)"
  by (cases "method_of req") (simp_all add: dispatch_def url_map_def)

lemma dispatch_search2:
  "dispatch svc cfg (req\<lparr>path := ''/search2''\<rparr>) = View (search2 svc cfg req)"
  by (cases "method_of req") (simp_all add: dispatch_def url_map_def)

lemma dispatch_search3:
  "dispatch svc cfg (req\<lparr>path := ''/search3''\<rparr>) = View (search3 svc cfg req)"
  by (cases "method_of req") (simp_all add: dispatch_def url_map_def)

lemma dispatch_search4:
  "dispatch svc cfg (req\<lparr>path := ''/search4''\<rparr>) = View (search4 svc cfg req)"
  by (cases "method_of req") (simp_all add: dispatch_def url_map_def)

lemma dispatch_content:
  "dispatch svc cfg (req\<lparr>method_of := GET, path := ''/content''\<rparr>) = View (content svc cfg req)"
  by (simp add: dispatch_def url_map_def)

lemmas dispatch_search =
  dispatch_search0 dispatch_search1 dispatch_search2 dispatch_search3 dispatch_search4

lemma routed_calls_View: "routed_calls (View out) = Some (fst out)"
  by (cases out) simp

lemma routed_result_View: "routed_result (View out) = Some (snd out)"
  by (cases out) simp

lemma search0_result:
  "snd (search0 svc cfg req) =
    (if truthy (args_get req ''q'')
     then (case search_index0 svc (SearchClient (SOLR_INDEX_0 cfg) (NUM_RECS_PER_PAGE cfg))
             (args_get req ''q'')
             (if truthy (args_get req ''page'') then args_get req ''page'' else PyInt 1)
             ''search0'' 0 of
             Inl e \<Rightarrow> Inl e
           | Inr (meta, docs) \<Rightarrow>
               Inr (render_template ''search0.html''
                      [(''meta'', Some meta), (''docs'', Some docs)]))
     else Inr (render_template ''search0.html'' [(''meta'', None), (''docs'', None)]))"
  by (simp add: search0_def Let_def)

lemma search1_result:
  "snd (search1 svc cfg req) =
    (if truthy (args_get req ''q'')
     then (case search_index0 svc (SearchClient (SOLR_INDEX_0 cfg) (NUM_RECS_PER_PAGE cfg))
             (args_get req ''q'')
             (if truthy (args_get req ''page'') then args_get req ''page'' else PyInt 1)
             ''search1'' 1 of
             Inl e \<Rightarrow> Inl e
           | Inr (meta, docs) \<Rightarrow>
               Inr (render_template ''search0.html''
                      [(''meta'', Some meta), (''docs'', Some docs)]))
     else Inr (render_template ''search0.html'' [(''meta'', None), (''docs'', None)]))"
  by (simp add: search1_def Let_def)

lemma search2_result:
  "snd (search2 svc cfg req) =
    (if truthy (args_get req ''q'')
     then (case search_index0 svc (SearchClient (SOLR_INDEX_0 cfg) (NUM_RECS_PER_PAGE cfg))
             (args_get req ''q'')
             (if truthy (args_get req ''page'') then args_get req ''page'' else PyInt 1)
             ''search2'' 2 of
             Inl e \<Rightarrow> Inl e
           | Inr (meta, docs) \<Rightarrow>
               Inr (render_template ''search0.html''
                      [(''meta'', Some meta), (''docs'', Some docs)]))
     else Inr (render_template ''search0.html'' [(''meta'', None), (''docs'', None)]))"
  by (simp add: search2_def Let_def)

lemma search3_result:
  "snd (search3 svc cfg req) =
    (if truthy (args_get req ''q'')
     then (case search_index1 svc (SearchClient (SOLR_INDEX_1 cfg) (NUM_RECS_PER_PAGE cfg))
             (args_get req ''q'') (args_get req ''fk'') (args_get req ''fa'')
             (if truthy (args_get req ''page'') then args_get req ''page'' else PyInt 1)
             ''search3'' 1 of
             Inl e \<Rightarrow> Inl e
           | Inr (meta, facets, docs) \<Rightarrow>
               Inr (render_template ''search1.html''
                      [(''meta'', Some meta), (''facets'', Some facets), (''docs'', Some docs)]))
     else Inr (render_template ''search1.html''
            [(''meta'', None), (''facets'', None), (''docs'', None)]))"
  by (simp add: search3_def Let_def)

lemma search4_result:
  "snd (search4 svc cfg req) =
    (if truthy (args_get req ''q'')
     then (case search_index1 svc (SearchClient (SOLR_INDEX_1 cfg) (NUM_RECS_PER_PAGE cfg))
             (args_get req ''q'') (args_get req ''fk'') (args_get req ''fa'')
             (if truthy (args_get req ''page'') then args_get req ''page'' else PyInt 1)
             ''search4'' 3 of
             Inl e \<Rightarrow> Inl e
           | Inr (meta, facets, docs) \<Rightarrow>
               Inr (render_template ''search1.html''
                      [(''meta'', Some meta), (''facets'', Some facets), (''docs'', Some docs)]))
     else Inr (render_template ''search1.html''
            [(''meta'', None), (''facets'', None), (''docs'', None)]))"
  by (simp add: search4_def Let_def)

lemmas search_results =
  search0_result search1_result search2_result search3_result search4_result

subsection \<open>Requests without a search text\<close>

lemma not_truthy_absent_or_empty:
  "args req k = None \<or> args req k = Some [] \<Longrightarrow> \<not> truthy (args_get req k)"
  by (auto simp: args_get_def)

text \<open>
  Claim C1, as amended: for every request to \<^verbatim>\<open>/search0\<close> ... \<^verbatim>\<open>/search4\<close>, by either
  verb, whose \<^verbatim>\<open>q\<close> parameter is absent or the empty string, the view makes no call
  to the search client and renders its template with \<^verbatim>\<open>meta\<close>, \<^verbatim>\<open>docs\<close> (and
  \<^verbatim>\<open>facets\<close> on the faceted routes) all \<^verbatim>\<open>None\<close>.
\<close>

theorem C1_absent_or_empty_q_no_client_call:
  assumes "args req ''q'' = None \<or> args req ''q'' = Some []"
  shows "dispatch svc cfg (req\<lparr>path := ''/search0''\<rparr>) =
           View ([], Inr (render_template ''search0.html'' [(''meta'', None), (''docs'', None)]))
       \<and> dispatch svc cfg (req\<lparr>path := ''/search1''\<rparr>) =
           View ([], Inr (render_template ''search0.html'' [(''meta'', None), (''docs'', None)]))
       \<and> dispatch svc cfg (req\<lparr>path := ''/search2''\<rparr>) =
           View ([], Inr (render_template ''search0.html'' [(''meta'', None), (''docs'', None)]))
       \<and> dispatch svc cfg (req\<lparr>path := ''/search3''\<rparr>) =
           View ([], Inr (render_template ''search1.html''
                            [(''meta'', None), (''facets'', None), (''docs'', None)]))
       \<and> dispatch svc cfg (req\<lparr>path := ''/search4''\<rparr>) =
           View ([], Inr (render_template ''search1.html''
                            [(''meta'', None), (''facets'', None), (''docs'', None)]))"
proof -
  from assms have q: "\<not> truthy (args_get req ''q'')"
    by (rule not_truthy_absent_or_empty)
  have "search0 svc cfg req =
          ([], Inr (render_template ''search0.html'' [(''meta'', None), (''docs'', None)]))"
    using q by (simp add: search0_def Let_def)
  moreover have "search1 svc cfg req =
          ([], Inr (render_template ''search0.html'' [(''meta'', None), (''docs'', None)]))"
    using q by (simp add: search1_def Let_def)
  moreover have "search2 svc cfg req =
          ([], Inr (render_template ''search0.html'' [(''meta'', None), (''docs'', None)]))"
    using q by (simp add: search2_def Let_def)
  moreover have "search3 svc cfg req =
          ([], Inr (render_template ''search1.html''
                      [(''meta'', None), (''facets'', None), (''docs'', None)]))"
    using q by (simp add: search3_def Let_def)
  moreover have "search4 svc cfg req =
          ([], Inr (render_template ''search1.html''
                      [(''meta'', None), (''facets'', None), (''docs'', None)]))"
    using q by (simp add: search4_def Let_def)
  ultimately show ?thesis
    by (simp only: dispatch_search simp_thms)
qed

text \<open>
  The theorem at a POST to \<^verbatim>\<open>/search0\<close> without \<^verbatim>\<open>q\<close> and at a GET to \<^verbatim>\<open>/search3\<close>
  with \<^verbatim>\<open>q=\<close> empty.
\<close>

theorem C1_absent_or_empty_q_witness:
  "dispatch demo_services demo_config (demo_request POST ''/search0'' [(''page'', ''2'')]) =
     View ([], Inr (render_template ''search0.html'' [(''meta'', None), (''docs'', None)]))
   \<and> dispatch demo_services demo_config
       (demo_request GET ''/search3'' [(''q'', ''''), (''fk'', ''color''), (''fa'', ''black'')]) =
     View ([], Inr (render_template ''search1.html''
                      [(''meta'', None), (''facets'', None), (''docs'', None)]))"
proof -
  have a: "args (demo_request POST ''/search0'' [(''page'', ''2'')]) ''q'' = None
         \<or> args (demo_request POST ''/search0'' [(''page'', ''2'')]) ''q'' = Some []"
    by (simp add: demo_request_def)
  have b: "args (demo_request GET ''/search3''
                   [(''q'', ''''), (''fk'', ''color''), (''fa'', ''black'')]) ''q'' = None
         \<or> args (demo_request GET ''/search3''
                   [(''q'', ''''), (''fk'', ''color''), (''fa'', ''black'')]) ''q'' = Some []"
    by (simp add: demo_request_def)
  show ?thesis
    using C1_absent_or_empty_q_no_client_call [OF a, of demo_services demo_config]
          C1_absent_or_empty_q_no_client_call [OF b, of demo_services demo_config]
    by (simp add: demo_request_def)
qed

text \<open>
  Claim C1 as stated fails for a blank parameter that is not empty: \<^verbatim>\<open>if q:\<close> tests
  for the empty string only, so \<^verbatim>\<open>/search0?q=%20\<close> (a single space) reaches the client
  and the page shows what the client returned.
\<close>

theorem C1_blank_q_counterexample:
  "blank (PyStr '' '')
   \<and> args_get (demo_request GET ''/search0'' [(''q'', '' '')]) ''q'' = PyStr '' ''
   \<and> routed_calls (dispatch demo_services demo_config
                     (demo_request GET ''/search0'' [(''q'', '' '')])) =
       Some [Call_search_index0 (SearchClient ''index0'' 10) (PyStr '' '') (PyInt 1) ''search0'' 0]
   \<and> routed_result (dispatch demo_services demo_config
                      (demo_request GET ''/search0'' [(''q'', '' '')])) =
       Some (Inr (render_template ''search0.html'' [(''meta'', Some 1), (''docs'', Some 2)]))"
  by (simp add: whitespace_def dispatch_def url_map_def search0_def demo_defs)

subsection \<open>The page argument\<close>

text \<open>
  Claim C2, as amended: on every search route the page handed to the client is the
  integer \<open>1\<close> when the \<^verbatim>\<open>page\<close> parameter is absent or the empty string, and otherwise
  the parameter's own string, unchanged: it is neither parsed nor checked to be
  positive. (When \<^verbatim>\<open>q\<close> is absent or empty no call is made and no page is passed.)
\<close>

theorem C2_page_passed_unparsed:
  "map_option (map call_page) (routed_calls (dispatch svc cfg (req\<lparr>path := ''/search0''\<rparr>))) =
     Some (if truthy (args_get req ''q'')
           then [Some (case args req ''page'' of
                         None \<Rightarrow> PyInt 1
                       | Some s \<Rightarrow> if s = [] then PyInt 1 else PyStr s)]
           else [])
   \<and> map_option (map call_page) (routed_calls (dispatch svc cfg (req\<lparr>path := ''/search1''\<rparr>))) =
     Some (if truthy (args_get req ''q'')
           then [Some (case args req ''page'' of
                         None \<Rightarrow> PyInt 1
                       | Some s \<Rightarrow> if s = [] then PyInt 1 else PyStr s)]
           else [])
   \<and> map_option (map call_page) (routed_calls (dispatch svc cfg (req\<lparr>path := ''/search2''\<rparr>))) =
     Some (if truthy (args_get req ''q'')
           then [Some (case args req ''page'' of
                         None \<Rightarrow> PyInt 1
                       | Some s \<Rightarrow> if s = [] then PyInt 1 else PyStr s)]
           else [])
   \<and> map_option (map call_page) (routed_calls (dispatch svc cfg (req\<lparr>path := ''/search3''\<rparr>))) =
     Some (if truthy (args_get req ''q'')
           then [Some (case args req ''page'' of
                         None \<Rightarrow> PyInt 1
                       | Some s \<Rightarrow> if s = [] then PyInt 1 else PyStr s)]
           else [])
   \<and> map_option (map call_page) (routed_calls (dispatch svc cfg (req\<lparr>path := ''/search4''\<rparr>))) =
     Some (if truthy (args_get req ''q'')
           then [Some (case args req ''page'' of
                         None \<Rightarrow> PyInt 1
                       | Some s \<Rightarrow> if s = [] then PyInt 1 else PyStr s)]
           else [])"
  by (simp add: dispatch_search routed_calls_View search_calls eff_page)

text \<open>
  The theorem at \<^verbatim>\<open>/search0?q=cats&page=2\<close>, where the string \<^verbatim>\<open>"2"\<close> is passed, and at
  \<^verbatim>\<open>/search4?q=cats\<close>, where the integer \<open>1\<close> is.
\<close>

theorem C2_page_passed_witness:
  "map_option (map call_page)
     (routed_calls (dispatch demo_services demo_config
        (demo_request GET ''/search0'' [(''q'', ''cats''), (''page'', ''2'')]))) =
     Some [Some (PyStr ''2'')]
   \<and> map_option (map call_page)
     (routed_calls (dispatch demo_services demo_config
        (demo_request GET ''/search4'' [(''q'', ''cats'')]))) =
     Some [Some (PyInt 1)]"
  using C2_page_passed_unparsed
          [of demo_services demo_config
              "demo_request GET ''/search0'' [(''q'', ''cats''), (''page'', ''2'')]"]
        C2_page_passed_unparsed
          [of demo_services demo_config "demo_request GET ''/search4'' [(''q'', ''cats'')]"]
  by (simp add: demo_request_def args_get_def)

text \<open>
  Claim C2 as stated fails: a \<^verbatim>\<open>page\<close> that does not denote a positive integer is
  not replaced by \<open>1\<close>. With \<^verbatim>\<open>page=abc\<close> the client receives \<^verbatim>\<open>"abc"\<close>, with
  \<^verbatim>\<open>page=-3\<close> it receives \<^verbatim>\<open>"-3"\<close>.
\<close>

theorem C2_non_numeric_page_counterexample:
  "map_option (map call_page)
     (routed_calls (dispatch demo_services demo_config
        (demo_request GET ''/search0'' [(''q'', ''cats''), (''page'', ''abc'')]))) =
     Some [Some (PyStr ''abc'')]
   \<and> map_option (map call_page)
     (routed_calls (dispatch demo_services demo_config
        (demo_request GET ''/search0'' [(''q'', ''cats''), (''page'', ''-3'')]))) =
     Some [Some (PyStr ''-3'')]
   \<and> PyStr ''abc'' \<noteq> PyInt 1 \<and> PyStr ''-3'' \<noteq> PyInt 1"
  by (simp add: dispatch_def url_map_def search0_def demo_defs)

subsection \<open>Offset and limit of a search\<close>

text \<open>
  Claim C3: for a page \<open>p \<ge> 1\<close> and a client built with page size \<open>num_recs c\<close>, a
  search (plain or faceted) asks the index for \<open>num_recs c\<close> results starting at
  offset \<open>(p - 1) * num_recs c\<close>; the offset is not negative when the page size is not.
\<close>

theorem C3_offset_and_limit:
  assumes "1 \<le> p"
  shows "start (searchPlain c q p) = (p - 1) * num_recs c
       \<and> rows (searchPlain c q p) = num_recs c
       \<and> start (searchFaceted c q fk fa p) = (p - 1) * num_recs c
       \<and> rows (searchFaceted c q fk fa p) = num_recs c
       \<and> (0 \<le> num_recs c \<longrightarrow> 0 \<le> start (searchPlain c q p)
                                \<and> 0 \<le> start (searchFaceted c q fk fa p))"
  using assms by (simp add: searchPlain_def searchFaceted_def)

text \<open>
  The theorem at the specification's two scenarios, with ten records per page: page 2
  of a plain search for \<^verbatim>\<open>cats\<close> starts at offset 10 and asks for 10 results; page 1 of
  a faceted search for \<^verbatim>\<open>dogs\<close> starts at offset 0.
\<close>

theorem C3_offset_and_limit_witness:
  "start (searchPlain (SearchClient (SOLR_INDEX_0 demo_config) (NUM_RECS_PER_PAGE demo_config))
            (PyStr ''cats'') 2) = 10
   \<and> rows (searchPlain (SearchClient (SOLR_INDEX_0 demo_config) (NUM_RECS_PER_PAGE demo_config))
            (PyStr ''cats'') 2) = 10
   \<and> start (searchFaceted (SearchClient (SOLR_INDEX_1 demo_config) (NUM_RECS_PER_PAGE demo_config))
            (PyStr ''dogs'') (Some ''color'') (Some ''black'') 1) = 0"
proof -
  have two: "(1::int) \<le> 2" and one: "(1::int) \<le> 1"
    by simp_all
  show ?thesis
    using C3_offset_and_limit
            [OF two, of "SearchClient (SOLR_INDEX_0 demo_config) (NUM_RECS_PER_PAGE demo_config)"
                        "PyStr ''cats''"]
          C3_offset_and_limit
            [OF one, of "SearchClient (SOLR_INDEX_1 demo_config) (NUM_RECS_PER_PAGE demo_config)"
                        "PyStr ''dogs''" "Some ''color''" "Some ''black''"]
    by (simp add: demo_config_def)
qed

subsection \<open>No validation step\<close>

text \<open>
  Claim C4, as amended: no search view ever calls the input form (\<^verbatim>\<open>SearchForm\<close> is
  imported and never used). When \<^verbatim>\<open>q\<close> is a non-empty string the view calls the search
  client exactly once, directly with the raw request parameters (\<^verbatim>\<open>q\<close>, and \<^verbatim>\<open>fk\<close>
  and \<^verbatim>\<open>fa\<close> on the faceted routes, as \<^verbatim>\<open>request.args.get\<close> returned them; the raw
  \<^verbatim>\<open>page\<close>, or \<open>1\<close> when it is absent or empty), and the outcome is the page rendered
  from what that call returned, or the exception it raised. When \<^verbatim>\<open>q\<close> is absent or
  empty the view makes no call and renders the empty-state page: its template with
  every value \<^verbatim>\<open>None\<close>.
\<close>

theorem C4_client_called_without_validation:
  "routed_calls (dispatch svc cfg (req\<lparr>path := ''/search0''\<rparr>)) =
     Some (if truthy (args_get req ''q'')
           then [Call_search_index0 (SearchClient (SOLR_INDEX_0 cfg) (NUM_RECS_PER_PAGE cfg))
                   (args_get req ''q'')
                   (if truthy (args_get req ''page'') then args_get req ''page'' else PyInt 1)
                   ''search0'' 0]
           else [])
   \<and> routed_result (dispatch svc cfg (req\<lparr>path := ''/search0''\<rparr>)) =
     Some (if truthy (args_get req ''q'')
           then (case search_index0 svc (SearchClient (SOLR_INDEX_0 cfg) (NUM_RECS_PER_PAGE cfg))
             (args_get req ''q'')
             (if truthy (args_get req ''page'') then args_get req ''page'' else PyInt 1)
             ''search0'' 0 of
                   Inl e \<Rightarrow> Inl e
                 | Inr (meta, docs) \<Rightarrow>
               Inr (render_template ''search0.html''
                      [(''meta'', Some meta), (''docs'', Some docs)]))
           else Inr (render_template ''search0.html'' [(''meta'', None), (''docs'', None)]))
   \<and> Call_SearchForm \<notin> set (fst (search0 svc cfg req))
   \<and> length (filter is_client_call (fst (search0 svc cfg req))) =
       (if truthy (args_get req ''q'') then 1 else 0)
   \<and> routed_calls (dispatch svc cfg (req\<lparr>path := ''/search1''\<rparr>)) =
     Some (if truthy (args_get req ''q'')
           then [Call_search_index0 (SearchClient (SOLR_INDEX_0 cfg) (NUM_RECS_PER_PAGE cfg))
                   (args_get req ''q'')
                   (if truthy (args_get req ''page'') then args_get req ''page'' else PyInt 1)
                   ''search1'' 1]
           else [])
   \<and> routed_result (dispatch svc cfg (req\<lparr>path := ''/search1''\<rparr>)) =
     Some (if truthy (args_get req ''q'')
           then (case search_index0 svc (SearchClient (SOLR_INDEX_0 cfg) (NUM_RECS_PER_PAGE cfg))
             (args_get req ''q'')
             (if truthy (args_get req ''page'') then args_get req ''page'' else PyInt 1)
             ''search1'' 1 of
                   Inl e \<Rightarrow> Inl e
                 | Inr (meta, docs) \<Rightarrow>
               Inr (render_template ''search0.html''
                      [(''meta'', Some meta), (''docs'', Some docs)]))
           else Inr (render_template ''search0.html'' [(''meta'', None), (''docs'', None)]))
   \<and> Call_SearchForm \<notin> set (fst (search1 svc cfg req))
   \<and> length (filter is_client_call (fst (search1 svc cfg req))) =
       (if truthy (args_get req ''q'') then 1 else 0)
   \<and> routed_calls (dispatch svc cfg (req\<lparr>path := ''/search2''\<rparr>)) =
     Some (if truthy (args_get req ''q'')
           then [Call_search_index0 (SearchClient (SOLR_INDEX_0 cfg) (NUM_RECS_PER_PAGE cfg))
                   (args_get req ''q'')
                   (if truthy (args_get req ''page'') then args_get req ''page'' else PyInt 1)
                   ''search2'' 2]
           else [])
   \<and> routed_result (dispatch svc cfg (req\<lparr>path := ''/search2''\<rparr>)) =
     Some (if truthy (args_get req ''q'')
           then (case search_index0 svc (SearchClient (SOLR_INDEX_0 cfg) (NUM_RECS_PER_PAGE cfg))
             (args_get req ''q'')
             (if truthy (args_get req ''page'') then args_get req ''page'' else PyInt 1)
             ''search2'' 2 of
                   Inl e \<Rightarrow> Inl e
                 | Inr (meta, docs) \<Rightarrow>
               Inr (render_template ''search0.html''
                      [(''meta'', Some meta), (''docs'', Some docs)]))
           else Inr (render_template ''search0.html'' [(''meta'', None), (''docs'', None)]))
   \<and> Call_SearchForm \<notin> set (fst (search2 svc cfg req))
   \<and> length (filter is_client_call (fst (search2 svc cfg req))) =
       (if truthy (args_get req ''q'') then 1 else 0)
   \<and> routed_calls (dispatch svc cfg (req\<lparr>path := ''/search3''\<rparr>)) =
     Some (if truthy (args_get req ''q'')
           then [Call_search_index1 (SearchClient (SOLR_INDEX_1 cfg) (NUM_RECS_PER_PAGE cfg))
                   (args_get req ''q'') (args_get req ''fk'') (args_get req ''fa'')
                   (if truthy (args_get req ''page'') then args_get req ''page'' else PyInt 1)
                   ''search3'' 1]
           else [])
   \<and> routed_result (dispatch svc cfg (req\<lparr>path := ''/search3''\<rparr>)) =
     Some (if truthy (args_get req ''q'')
           then (case search_index1 svc (SearchClient (SOLR_INDEX_1 cfg) (NUM_RECS_PER_PAGE cfg))
             (args_get req ''q'') (args_get req ''fk'') (args_get req ''fa'')
             (if truthy (args_get req ''page'') then args_get req ''page'' else PyInt 1)
             ''search3'' 1 of
                   Inl e \<Rightarrow> Inl e
                 | Inr (meta, facets, docs) \<Rightarrow>
               Inr (render_template ''search1.html''
                      [(''meta'', Some meta), (''facets'', Some facets), (''docs'', Some docs)]))
           else Inr (render_template ''search1.html''
            [(''meta'', None), (''facets'', None), (''docs'', None)]))
   \<and> Call_SearchForm \<notin> set (fst (search3 svc cfg req))
   \<and> length (filter is_client_call (fst (search3 svc cfg req))) =
       (if truthy (args_get req ''q'') then 1 else 0)
   \<and> routed_calls (dispatch svc cfg (req\<lparr>path := ''/search4''\<rparr>)) =
     Some (if truthy (args_get req ''q'')
           then [Call_search_index1 (SearchClient (SOLR_INDEX_1 cfg) (NUM_RECS_PER_PAGE cfg))
                   (args_get req ''q'') (args_get req ''fk'') (args_get req ''fa'')
                   (if truthy (args_get req ''page'') then args_get req ''page'' else PyInt 1)
                   ''search4'' 3]
           else [])
   \<and> routed_result (dispatch svc cfg (req\<lparr>path := ''/search4''\<rparr>)) =
     Some (if truthy (args_get req ''q'')
           then (case search_index1 svc (SearchClient (SOLR_INDEX_1 cfg) (NUM_RECS_PER_PAGE cfg))
             (args_get req ''q'') (args_get req ''fk'') (args_get req ''fa'')
             (if truthy (args_get req ''page'') then args_get req ''page'' else PyInt 1)
             ''search4'' 3 of
                   Inl e \<Rightarrow> Inl e
                 | Inr (meta, facets, docs) \<Rightarrow>
               Inr (render_template ''search1.html''
                      [(''meta'', Some meta), (''facets'', Some facets), (''docs'', Some docs)]))
           else Inr (render_template ''search1.html''
            [(''meta'', None), (''facets'', None), (''docs'', None)]))
   \<and> Call_SearchForm \<notin> set (fst (search4 svc cfg req))
   \<and> length (filter is_client_call (fst (search4 svc cfg req))) =
       (if truthy (args_get req ''q'') then 1 else 0)"
  by (simp add: dispatch_search routed_calls_View routed_result_View search_calls
        search_results)

text \<open>
  The theorem at \<^verbatim>\<open>/search0?q=cats&page=abc\<close>, where the one call carries \<^verbatim>\<open>"cats"\<close> and
  \<^verbatim>\<open>"abc"\<close> as received and no form call is made, and at a POST to
  \<^verbatim>\<open>/search3?fk=color&page=2\<close>, where no call is made and the empty-state page is
  rendered.
\<close>

theorem C4_client_called_witness:
  "routed_calls (dispatch demo_services demo_config
     (demo_request GET ''/search0'' [(''q'', ''cats''), (''page'', ''abc'')])) =
     Some [Call_search_index0 (SearchClient ''index0'' 10) (PyStr ''cats'') (PyStr ''abc'')
             ''search0'' 0]
   \<and> routed_result (dispatch demo_services demo_config
     (demo_request GET ''/search0'' [(''q'', ''cats''), (''page'', ''abc'')])) =
     Some (Inr (render_template ''search0.html'' [(''meta'', Some 1), (''docs'', Some 2)]))
   \<and> Call_SearchForm \<notin> set
     (fst (search0 demo_services demo_config
        (demo_request GET ''/search0'' [(''q'', ''cats''), (''page'', ''abc'')])))
   \<and> routed_calls (dispatch demo_services demo_config
     (demo_request POST ''/search3'' [(''fk'', ''color''), (''page'', ''2'')])) = Some []
   \<and> routed_result (dispatch demo_services demo_config
     (demo_request POST ''/search3'' [(''fk'', ''color''), (''page'', ''2'')])) =
     Some (Inr (render_template ''search1.html''
                  [(''meta'', None), (''facets'', None), (''docs'', None)]))"
  using C4_client_called_without_validation
          [of demo_services demo_config
              "demo_request GET ''/search0'' [(''q'', ''cats''), (''page'', ''abc'')]"]
        C4_client_called_without_validation
          [of demo_services demo_config
              "demo_request POST ''/search3'' [(''fk'', ''color''), (''page'', ''2'')]"]
  by (simp add: demo_request_def demo_config_def demo_services_def args_get_def)

text \<open>
  Claim C4 as stated fails: at \<^verbatim>\<open>/search0?q=cats\<close>, a request with a non-blank search
  text, the client is called and no call to the input form comes before it.
\<close>

theorem C4_no_validation_counterexample:
  "\<not> blank (args_get (demo_request GET ''/search0'' [(''q'', ''cats'')]) ''q'')
   \<and> map_option (validated_first False)
       (routed_calls (dispatch demo_services demo_config
          (demo_request GET ''/search0'' [(''q'', ''cats'')]))) = Some False"
  by (simp add: whitespace_def dispatch_def url_map_def search0_def demo_defs)

subsection \<open>Routes, operations and indexes\<close>

text \<open>
  Claim C5: the binding of route to operation to index. A request to \<^verbatim>\<open>/search0\<close>,
  \<^verbatim>\<open>/search1\<close> or \<^verbatim>\<open>/search2\<close> is served by calling \<^verbatim>\<open>search_index0\<close> on a client
  built for \<^verbatim>\<open>SOLR_INDEX_0\<close>; one to \<^verbatim>\<open>/search3\<close> or \<^verbatim>\<open>/search4\<close> by calling
  \<^verbatim>\<open>search_index1\<close> on a client built for \<^verbatim>\<open>SOLR_INDEX_1\<close>; a GET of \<^verbatim>\<open>/content\<close> by
  calling \<^verbatim>\<open>get\<close> on a client built for \<^verbatim>\<open>SOLR_INDEX_0\<close>. A search route makes its
  call when \<^verbatim>\<open>q\<close> is a non-empty string and makes no call otherwise; no route ever
  calls another operation or uses the other index.
\<close>

theorem C5_route_operation_index_binding:
  "map_option (map call_binding)
     (routed_calls (dispatch svc cfg (req\<lparr>path := ''/search0''\<rparr>))) =
     Some (if truthy (args_get req ''q'')
           then [(''search_index0'', Some (SOLR_INDEX_0 cfg))] else [])
   \<and> map_option (map call_binding)
     (routed_calls (dispatch svc cfg (req\<lparr>path := ''/search1''\<rparr>))) =
     Some (if truthy (args_get req ''q'')
           then [(''search_index0'', Some (SOLR_INDEX_0 cfg))] else [])
   \<and> map_option (map call_binding)
     (routed_calls (dispatch svc cfg (req\<lparr>path := ''/search2''\<rparr>))) =
     Some (if truthy (args_get req ''q'')
           then [(''search_index0'', Some (SOLR_INDEX_0 cfg))] else [])
   \<and> map_option (map call_binding)
     (routed_calls (dispatch svc cfg (req\<lparr>path := ''/search3''\<rparr>))) =
     Some (if truthy (args_get req ''q'')
           then [(''search_index1'', Some (SOLR_INDEX_1 cfg))] else [])
   \<and> map_option (map call_binding)
     (routed_calls (dispatch svc cfg (req\<lparr>path := ''/search4''\<rparr>))) =
     Some (if truthy (args_get req ''q'')
           then [(''search_index1'', Some (SOLR_INDEX_1 cfg))] else [])
   \<and> map_option (map call_binding)
     (routed_calls (dispatch svc cfg (req\<lparr>method_of := GET, path := ''/content''\<rparr>))) =
     Some [(''get'', Some (SOLR_INDEX_0 cfg))]"
  by (simp add: dispatch_search dispatch_content routed_calls_View search_calls content_calls)

text \<open>The theorem at a POST to \<^verbatim>\<open>/search2\<close>, a GET of \<^verbatim>\<open>/search3\<close> and a GET of \<^verbatim>\<open>/content\<close>.\<close>

theorem C5_binding_witness:
  "map_option (map call_binding)
     (routed_calls (dispatch demo_services demo_config
        (demo_request POST ''/search2'' [(''q'', ''cats'')]))) =
     Some [(''search_index0'', Some ''index0'')]
   \<and> map_option (map call_binding)
     (routed_calls (dispatch demo_services demo_config
        (demo_request GET ''/search3'' [(''q'', ''dogs''), (''fk'', ''color'')]))) =
     Some [(''search_index1'', Some ''index1'')]
   \<and> map_option (map call_binding)
     (routed_calls (dispatch demo_services demo_config
        (demo_request GET ''/content'' []))) =
     Some [(''get'', Some ''index0'')]"
  using C5_route_operation_index_binding
          [of demo_services demo_config "demo_request POST ''/search2'' [(''q'', ''cats'')]"]
        C5_route_operation_index_binding
          [of demo_services demo_config
              "demo_request GET ''/search3'' [(''q'', ''dogs''), (''fk'', ''color'')]"]
        C5_route_operation_index_binding
          [of demo_services demo_config "demo_request GET ''/content'' []"]
  by (simp add: demo_request_def demo_config_def args_get_def)

subsection \<open>GET and POST\<close>

text \<open>
  Claim C6: each of the five search routes accepts GET and POST, and for the same
  query-string parameters the two give the same outcome: the same calls and the same
  page or exception. The views read \<^verbatim>\<open>request.args\<close> only, so the body of a POST
  (\<open>f\<close> below) plays no part.
\<close>

theorem C6_post_equals_get:
  assumes "p \<in> set [''/search0'', ''/search1'', ''/search2'', ''/search3'', ''/search4'']"
  shows "dispatch svc cfg \<lparr>method_of = POST, path = p, args = a, form = f\<rparr> =
           dispatch svc cfg \<lparr>method_of = GET, path = p, args = a, form = g\<rparr>
       \<and> routed_result (dispatch svc cfg \<lparr>method_of = GET, path = p, args = a, form = g\<rparr>) \<noteq> None"
proof -
  have views:
    "search0 svc cfg \<lparr>method_of = POST, path = p, args = a, form = f\<rparr> =
       search0 svc cfg \<lparr>method_of = GET, path = p, args = a, form = g\<rparr>"
    "search1 svc cfg \<lparr>method_of = POST, path = p, args = a, form = f\<rparr> =
       search1 svc cfg \<lparr>method_of = GET, path = p, args = a, form = g\<rparr>"
    "search2 svc cfg \<lparr>method_of = POST, path = p, args = a, form = f\<rparr> =
       search2 svc cfg \<lparr>method_of = GET, path = p, args = a, form = g\<rparr>"
    "search3 svc cfg \<lparr>method_of = POST, path = p, args = a, form = f\<rparr> =
       search3 svc cfg \<lparr>method_of = GET, path = p, args = a, form = g\<rparr>"
    "search4 svc cfg \<lparr>method_of = POST, path = p, args = a, form = f\<rparr> =
       search4 svc cfg \<lparr>method_of = GET, path = p, args = a, form = g\<rparr>"
    by (simp_all add: search0_def search1_def search2_def search3_def search4_def args_get_def)
  from assms consider "p = ''/search0''" | "p = ''/search1''" | "p = ''/search2''"
    | "p = ''/search3''" | "p = ''/search4''"
    by auto
  then show ?thesis
  proof cases
    case 1
    then show ?thesis
      using views(1) by (simp add: dispatch_def url_map_def routed_result_View)
  next
    case 2
    then show ?thesis
      using views(2) by (simp add: dispatch_def url_map_def routed_result_View)
  next
    case 3
    then show ?thesis
      using views(3) by (simp add: dispatch_def url_map_def routed_result_View)
  next
    case 4
    then show ?thesis
      using views(4) by (simp add: dispatch_def url_map_def routed_result_View)
  next
    case 5
    then show ?thesis
      using views(5) by (simp add: dispatch_def url_map_def routed_result_View)
  qed
qed

text \<open>
  The theorem at \<^verbatim>\<open>/search3?q=dogs&fk=color&fa=black\<close>, the POST carrying a form body
  with another \<^verbatim>\<open>q\<close>.
\<close>

theorem C6_post_equals_get_witness:
  "dispatch demo_services demo_config
     \<lparr>method_of = POST, path = ''/search3'',
      args = map_of [(''q'', ''dogs''), (''fk'', ''color''), (''fa'', ''black'')],
      form = map_of [(''q'', ''cats'')]\<rparr> =
   dispatch demo_services demo_config
     \<lparr>method_of = GET, path = ''/search3'',
      args = map_of [(''q'', ''dogs''), (''fk'', ''color''), (''fa'', ''black'')],
      form = Map.empty\<rparr>
   \<and> dispatch demo_services demo_config
     \<lparr>method_of = GET, path = ''/search3'',
      args = map_of [(''q'', ''dogs''), (''fk'', ''color''), (''fa'', ''black'')],
      form = Map.empty\<rparr> =
     View ([Call_search_index1 (SearchClient ''index1'' 10) (PyStr ''dogs'') (PyStr ''color'')
              (PyStr ''black'') (PyInt 1) ''search3'' 1],
           Inr (render_template ''search1.html''
                  [(''meta'', Some 1), (''facets'', Some 3), (''docs'', Some 2)]))"
proof -
  have p: "''/search3'' \<in> set [''/search0'', ''/search1'', ''/search2'', ''/search3'', ''/search4'']"
    by simp
  have "dispatch demo_services demo_config
     \<lparr>method_of = GET, path = ''/search3'',
      args = map_of [(''q'', ''dogs''), (''fk'', ''color''), (''fa'', ''black'')],
      form = Map.empty\<rparr> =
     View ([Call_search_index1 (SearchClient ''index1'' 10) (PyStr ''dogs'') (PyStr ''color'')
              (PyStr ''black'') (PyInt 1) ''search3'' 1],
           Inr (render_template ''search1.html''
                  [(''meta'', Some 1), (''facets'', Some 3), (''docs'', Some 2)]))"
    by (simp add: dispatch_def url_map_def search3_def demo_services_def demo_config_def
          args_get_def)
  with C6_post_equals_get [OF p, of demo_services demo_config
         "map_of [(''q'', ''dogs''), (''fk'', ''color''), (''fa'', ''black'')]"
         "map_of [(''q'', ''cats'')]" Map.empty]
  show ?thesis
    by simp
qed

subsection \<open>View labels\<close>

text \<open>
  Claim C7: the view label a search route passes to the client is the route's own name:
  the route \<^verbatim>\<open>/l\<close>, for \<open>l\<close> one of \<^verbatim>\<open>search0\<close> ... \<^verbatim>\<open>search4\<close>, passes \<open>l\<close> in the
  one call it makes (and makes none when \<^verbatim>\<open>q\<close> is absent or empty).
\<close>

theorem C7_view_label_is_route_name:
  assumes "l \<in> set [''search0'', ''search1'', ''search2'', ''search3'', ''search4'']"
  shows "map_option (map call_label)
           (routed_calls (dispatch svc cfg (req\<lparr>path := CHR ''/'' # l\<rparr>))) =
         Some (if truthy (args_get req ''q'') then [Some l] else [])"
proof -
  from assms consider "l = ''search0''" | "l = ''search1''" | "l = ''search2''"
    | "l = ''search3''" | "l = ''search4''"
    by auto
  then show ?thesis
    by cases (simp_all add: dispatch_search routed_calls_View search_calls)
qed

text \<open>The theorem at \<^verbatim>\<open>/search4?q=dogs\<close> and at a POST to \<^verbatim>\<open>/search1?q=cats\<close>.\<close>

theorem C7_view_label_witness:
  "map_option (map call_label)
     (routed_calls (dispatch demo_services demo_config
        (demo_request GET ''/search4'' [(''q'', ''dogs'')]))) = Some [Some ''search4'']
   \<and> map_option (map call_label)
     (routed_calls (dispatch demo_services demo_config
        (demo_request POST ''/search1'' [(''q'', ''cats'')]))) = Some [Some ''search1'']"
proof -
  have a: "''search4'' \<in> set [''search0'', ''search1'', ''search2'', ''search3'', ''search4'']"
    and b: "''search1'' \<in> set [''search0'', ''search1'', ''search2'', ''search3'', ''search4'']"
    by simp_all
  show ?thesis
    using C7_view_label_is_route_name
            [OF a, of demo_services demo_config "demo_request GET ''/search4'' [(''q'', ''dogs'')]"]
          C7_view_label_is_route_name
            [OF b, of demo_services demo_config "demo_request POST ''/search1'' [(''q'', ''cats'')]"]
    by (simp add: demo_request_def args_get_def)
qed

subsection \<open>The document view\<close>

text \<open>
  Claim C9: every GET of \<^verbatim>\<open>/content\<close> makes exactly one call, \<^verbatim>\<open>get\<close> with the raw
  \<^verbatim>\<open>id\<close> parameter (\<^verbatim>\<open>None\<close> when it is absent), with no validation before it; and
  whatever exception \<^verbatim>\<open>get\<close> raises leaves the view unchanged.
\<close>

theorem C9_content_calls_get_and_propagates:
  "routed_calls (dispatch svc cfg (req\<lparr>method_of := GET, path := ''/content''\<rparr>)) =
     Some [Call_get (SearchClient (SOLR_INDEX_0 cfg) (NUM_RECS_PER_PAGE cfg))
             (case args req ''id'' of None \<Rightarrow> PyNone | Some s \<Rightarrow> PyStr s)]
   \<and> (\<forall>e. get svc (SearchClient (SOLR_INDEX_0 cfg) (NUM_RECS_PER_PAGE cfg))
             (case args req ''id'' of None \<Rightarrow> PyNone | Some s \<Rightarrow> PyStr s) = Inl e \<longrightarrow>
          routed_result (dispatch svc cfg (req\<lparr>method_of := GET, path := ''/content''\<rparr>)) =
            Some (Inl e))"
  by (simp add: dispatch_content routed_calls_View routed_result_View content_calls
        content_result args_get_def)

text \<open>
  The theorem at \<^verbatim>\<open>/content\<close> without \<^verbatim>\<open>id\<close>: \<^verbatim>\<open>get\<close> is called with \<^verbatim>\<open>None\<close>, and
  the exception it raises is the outcome.
\<close>

theorem C9_content_witness:
  "routed_calls (dispatch demo_services demo_config (demo_request GET ''/content'' [])) =
     Some [Call_get (SearchClient ''index0'' 10) PyNone]
   \<and> get demo_services (SearchClient ''index0'' 10) PyNone = Inl ''NotFound''
   \<and> routed_result (dispatch demo_services demo_config (demo_request GET ''/content'' [])) =
       Some (Inl ''NotFound'')"
  using C9_content_calls_get_and_propagates
          [of demo_services demo_config "demo_request GET ''/content'' []"]
  by (simp add: demo_request_def demo_config_def demo_services_def)

subsection \<open>The search views as instances of one view\<close>

text \<open>
  Claim C10: \<^verbatim>\<open>search0\<close>, \<^verbatim>\<open>search1\<close> and \<^verbatim>\<open>search2\<close> are the same view up to the
  label and the numeric last argument (0, 1, 2): each is \<open>plain_search_view\<close> at its
  label and number, hence builds the same client, passes the same \<^verbatim>\<open>q\<close> and
  \<^verbatim>\<open>page\<close> and renders \<^verbatim>\<open>search0.html\<close>. Likewise \<^verbatim>\<open>search3\<close> and \<^verbatim>\<open>search4\<close> are
  \<open>faceted_search_view\<close> at their labels and the numbers 1 and 3, and render
  \<^verbatim>\<open>search1.html\<close>.
\<close>

theorem C10_views_are_instances:
  "search0 = plain_search_view ''search0'' 0
   \<and> search1 = plain_search_view ''search1'' 1
   \<and> search2 = plain_search_view ''search2'' 2
   \<and> search3 = faceted_search_view ''search3'' 1
   \<and> search4 = faceted_search_view ''search4'' 3"
  by (simp add: fun_eq_iff search0_def search1_def search2_def search3_def search4_def
        plain_search_view_def faceted_search_view_def Let_def)

end
